theory Spec2Isabelle
  imports Complex_Main
begin

section \<open>The SCM viewlet (scmViewlet.ts): data model\<close>

text \<open>
  The viewlet shows the repositories of the SCM service, and for one repository its commit
  input and the flattened list of its resource groups and resources. The interfaces
  \<open>ISCMRepository\<close>, \<open>ISCMResourceGroup\<close>, \<open>ISCMResource\<close> and \<open>Command\<close> are imported by
  the file; the records below hold the fields that the file reads.

  A resource points back to its group and a group to its provider. A record cannot contain
  itself, so a back reference holds the fields that are read through it:
  \<open>r.resourceGroup.provider.contextValue\<close> and \<open>r.resourceGroup.id\<close>.
\<close>

record URI =
  toString :: string

record ISCMProviderRef =
  contextValue :: string

record ISCMResourceGroupRef =
  provider_group :: ISCMProviderRef
  id_group :: string

record ISCMResource =
  resourceGroup :: ISCMResourceGroupRef
  sourceUri :: URI

record ISCMResourceCollection =
  resources :: "ISCMResource list"

record ISCMResourceGroup = ISCMResourceGroupRef +
  hideWhenEmpty :: bool
  resourceCollection :: ISCMResourceCollection

record 'a Command =
  id_command :: string
  arguments :: "'a list"

record 'a ISCMProvider = ISCMProviderRef +
  resources_provider :: "ISCMResourceGroup list"
  commitTemplate :: "string option"
  acceptInputCommand :: "'a Command option"

record ISCMInput =
  value_input :: string

record 'a ISCMRepository =
  provider :: "'a ISCMProvider"
  input :: ISCMInput

text \<open>
  A row of the resource list is an \<open>ISCMResourceGroup | ISCMResource\<close>. The source tells
  the two apart with the runtime predicate \<open>isSCMResource\<close> of \<open>./scmUtil\<close>.
\<close>

datatype element = Group ISCMResourceGroup | Resource ISCMResource

text \<open>
  Modelled from the spec: \<open>isSCMResource\<close> (imported from \<open>./scmUtil\<close>, which is not among
  the sources) is the variant test of the union of resource groups and resources.
\<close>

fun isSCMResource :: "element \<Rightarrow> bool" where
  "isSCMResource (Resource r) = True"
| "isSCMResource (Group g) = False"

text \<open>
  Modelled from the spec: the list widget's \<open>splice(start, deleteCount, elements)\<close>
  (\<open>vs/base/browser/ui/list/listWidget\<close> is not among the sources) removes the existing range
  and inserts the new one.
\<close>

definition splice_widget :: "nat \<Rightarrow> nat \<Rightarrow> 'e list \<Rightarrow> 'e list \<Rightarrow> 'e list" where
  "splice_widget start deleteCount elements xs =
     take start xs @ elements @ drop (start + deleteCount) xs"

section \<open>identityProvider\<close>

fun identityProvider :: "element \<Rightarrow> string" where
  "identityProvider (Resource r) =
     (let group = resourceGroup r; provider = provider_group group
      in contextValue provider @ ''/'' @ id_group group @ ''/'' @ toString (sourceUri r))"
| "identityProvider (Group r) =
     (let provider = provider_group r
      in contextValue provider @ ''/'' @ id_group r)"

section \<open>ProvidersListDelegate and ProvidersPanel\<close>

definition getHeight :: "'r \<Rightarrow> nat" where
  "getHeight element = 22"

record 'r ISCMService =
  repositories :: "'r list"

record 'r ProvidersPanel =
  scmService :: "'r ISCMService"
  list_repositories :: "'r list"
  minimumBodySize :: nat
  maximumBodySize :: nat

definition updateBodySize :: "'r ProvidersPanel \<Rightarrow> 'r ProvidersPanel" where
  "updateBodySize p =
     (let size = min 5 (length (repositories (scmService p))) * 22
      in p\<lparr>minimumBodySize := size, maximumBodySize := size\<rparr>)"

definition update :: "'r ProvidersPanel \<Rightarrow> 'r ProvidersPanel" where
  "update p =
     updateBodySize
       (p\<lparr>list_repositories :=
            splice_widget 0 (length (list_repositories p)) (repositories (scmService p))
              (list_repositories p)\<rparr>)"

definition onDidAddRepository :: "'r \<Rightarrow> 'r ProvidersPanel \<Rightarrow> 'r ProvidersPanel" where
  "onDidAddRepository repository p = update p"

definition onDidRemoveRepository :: "'r \<Rightarrow> 'r ProvidersPanel \<Rightarrow> 'r ProvidersPanel" where
  "onDidRemoveRepository repository p = update p"

section \<open>MultipleSelectionActionRunner\<close>

text \<open>
  An action is a \<open>MenuItemAction\<close> or not (\<open>action instanceof MenuItemAction\<close>); the string
  is the action's id. The runner only compares and forwards resources, so it is stated over
  any type \<open>'r\<close> of resource references, on which \<open>=\<close> is the identity \<open>===\<close> of objects.
  What the runner does is the list of calls it makes: \<open>action.run(args)\<close>, or the base
  class's \<open>runAction\<close> (\<open>vs/base/common/actions\<close>, not among the sources).
\<close>

datatype IAction = MenuItemAction string | OtherAction string

datatype 'r call = ActionRun IAction "'r list" | SuperRunAction IAction 'r

fun instanceofMenuItemAction :: "IAction \<Rightarrow> bool" where
  "instanceofMenuItemAction (MenuItemAction a) = True"
| "instanceofMenuItemAction (OtherAction a) = False"

text \<open>
  The runner holds the closure \<open>getSelectedResources\<close> and calls it when an action runs;
  \<open>w\<close> is the state that the closure reads at that moment.
\<close>

definition runAction :: "('w \<Rightarrow> 'r list) \<Rightarrow> 'w \<Rightarrow> IAction \<Rightarrow> 'r \<Rightarrow> 'r call list" where
  "runAction getSelectedResources w action context =
     (if instanceofMenuItemAction action then
        (let selection = getSelectedResources w;
             filteredSelection = filter (\<lambda>s. s \<noteq> context) selection
         in if length selection = length filteredSelection \<or> length selection = 1
            then [ActionRun action [context]]
            else [ActionRun action (context # filteredSelection)])
      else [SuperRunAction action context])"

section \<open>ProviderPanel\<close>

text \<open>
  A JavaScript number is an IEEE 754 binary64 value: a finite value \<open>Num x\<close> (\<open>x\<close> its
  mathematical value, \<open>Num 0\<close> the positive zero), the negative zero, the two infinities or
  \<open>NaN\<close>. Heights are such numbers: they need not be integers. \<open>Num x\<close> is a number when
  \<open>x\<close> is a binary64 value, that is when \<open>round64 x = Num x\<close>; every result of the
  operators below is one.

  The result of an addition is the exact sum rounded to the nearest binary64 value, ties
  to the even significand. Every finite binary64 value is a multiple of \<open>2 ^ -1074\<close>, so
  \<open>round64\<close> works in units of \<open>2 ^ -1074\<close>: with \<open>N\<close> the magnitude in these units, the
  spacing of the values around it is \<open>2 ^ k\<close> units, \<open>k = \<lfloor>log\<^sub>2 N\<rfloor> - 52\<close> and at least 0
  (the subnormal range); a rounded magnitude of \<open>2 ^ 1024\<close> or more overflows to an infinity.
\<close>

datatype number = Num rat | NegZero | PosInf | NegInf | NaN

function ilog2 :: "int \<Rightarrow> nat" where
  "ilog2 n = (if n < 2 then 0 else Suc (ilog2 (n div 2)))"
  by pat_completeness auto
termination
  by (relation "measure nat") auto

declare ilog2.simps [simp del]

definition roundTiesToEven :: "rat \<Rightarrow> int" where
  "roundTiesToEven y =
     (let f = \<lfloor>y\<rfloor>; d = y - of_int f
      in if d < 1 / 2 then f else if 1 / 2 < d then f + 1 else if even f then f else f + 1)"

definition subnormal_exponent :: nat where
  "subnormal_exponent = 1074"

definition round64 :: "rat \<Rightarrow> number" where
  "round64 x =
     (let N = \<bar>x\<bar> * 2 ^ subnormal_exponent;
          k = ilog2 \<lfloor>N\<rfloor> - 52;
          M = roundTiesToEven (N / 2 ^ k) * 2 ^ k
      in if 2 ^ (subnormal_exponent + 1024) \<le> M then (if x < 0 then NegInf else PosInf)
         else if M = 0 then (if x < 0 then NegZero else Num 0)
         else Num (sgn x * of_int M / 2 ^ subnormal_exponent))"

fun finite_value :: "number \<Rightarrow> rat" where
  "finite_value (Num x) = x"
| "finite_value NegZero = 0"
| "finite_value PosInf = 0"
| "finite_value NegInf = 0"
| "finite_value NaN = 0"

text \<open>
  The operators that \<open>layoutBody\<close> applies to numbers: unary minus, \<open>+\<close>, \<open>-\<close> (which is
  \<open>x + (-y)\<close>) and \<open>>=\<close>. The sum of two zeros is the negative zero only when both are;
  a sum that is exactly zero otherwise is the positive zero.
\<close>

fun js_neg :: "number \<Rightarrow> number" where
  "js_neg (Num x) = (if x = 0 then NegZero else Num (- x))"
| "js_neg NegZero = Num 0"
| "js_neg PosInf = NegInf"
| "js_neg NegInf = PosInf"
| "js_neg NaN = NaN"

definition js_plus :: "number \<Rightarrow> number \<Rightarrow> number" where
  "js_plus a b =
     (if a = NaN \<or> b = NaN then NaN
      else if (a = PosInf \<and> b = NegInf) \<or> (a = NegInf \<and> b = PosInf) then NaN
      else if a = PosInf \<or> b = PosInf then PosInf
      else if a = NegInf \<or> b = NegInf then NegInf
      else if finite_value a + finite_value b = 0
        then (if a = NegZero \<and> b = NegZero then NegZero else Num 0)
      else round64 (finite_value a + finite_value b))"

definition js_minus :: "number \<Rightarrow> number \<Rightarrow> number" where
  "js_minus a b = js_plus a (js_neg b)"

definition js_ge :: "number \<Rightarrow> number \<Rightarrow> bool" where
  "js_ge a b =
     (if a = NaN \<or> b = NaN then False
      else if a = PosInf \<or> b = NegInf then True
      else if a = NegInf \<or> b = PosInf then False
      else finite_value b \<le> finite_value a)"

text \<open>
  A height that may be \<open>undefined\<close> is a \<open>number option\<close>; \<open>undefined\<close> converts to \<open>NaN\<close>
  in arithmetic. The guard of \<open>layoutBody\<close> compares a boolean with \<open>undefined\<close>: these are
  the two kinds of value of \<open>js\<close>.
\<close>

fun ToNumber :: "number option \<Rightarrow> number" where
  "ToNumber None = NaN"
| "ToNumber (Some h) = h"

datatype js = Boolean bool | Undefined

record InputBox =
  value_inputBox :: string

record 'a ProviderPanel =
  repository :: "'a ISCMRepository"
  cachedHeight :: "number option"
  inputBox :: InputBox
  inputBoxContainer_scroll :: bool
  listContainer_style_height :: number
  list :: "element list"

text \<open>
  \<open>this.inputBox.value = this.repository.provider.commitTemplate\<close>, unless the template is
  \<open>undefined\<close>.
\<close>

definition updateInputBox :: "'a ProviderPanel \<Rightarrow> 'a ProviderPanel" where
  "updateInputBox p =
     (case commitTemplate (provider (repository p)) of
        None \<Rightarrow> p
      | Some t \<Rightarrow> p\<lparr>inputBox := (inputBox p)\<lparr>value_inputBox := t\<rparr>\<rparr>)"

text \<open>
  \<open>renderBody\<close> registers \<open>updateInputBox\<close> as the listener of the provider's
  \<open>onDidChangeCommitTemplate\<close> event: this is what runs when the event fires.
\<close>

definition onDidChangeCommitTemplate :: "'a ProviderPanel \<Rightarrow> 'a ProviderPanel" where
  "onDidChangeCommitTemplate p = updateInputBox p"

definition updateList :: "'a ProviderPanel \<Rightarrow> 'a ProviderPanel" where
  "updateList p =
     (let elements =
        foldl (\<lambda>r g.
                 if length (resources (resourceCollection g)) = 0 \<and> hideWhenEmpty g then r
                 else r @ [Group g] @ map Resource (resources (resourceCollection g)))
              [] (resources_provider (provider (repository p)))
      in p\<lparr>list := splice_widget 0 (length (list p)) elements (list p)\<rparr>)"

text \<open>
  \<open>renderBody\<close>: the input box is created, takes the value of the repository's input
  (\<open>this.inputBox.value = this.repository.input.value\<close>), then \<open>updateInputBox\<close> runs; the
  list is created empty, then \<open>updateList\<close> runs.
\<close>

definition renderBody :: "'a ProviderPanel \<Rightarrow> 'a ProviderPanel" where
  "renderBody p =
     (let p1 = p\<lparr>inputBox := \<lparr>value_inputBox = value_input (input (repository p))\<rparr>\<rparr>;
          p2 = updateInputBox p1;
          p3 = p2\<lparr>list := []\<rparr>
      in updateList p3)"

text \<open>
  \<open>layoutBody(height = this.cachedHeight)\<close>: \<open>None\<close> is an omitted argument or
  \<open>undefined\<close>. The guard is \<open>!height === undefined\<close>, which compares the boolean \<open>!height\<close>
  (true for \<open>undefined\<close>, a zero and \<open>NaN\<close>) with \<open>undefined\<close>. \<open>editorHeight\<close> is the height
  that the input box reports after its own layout; the container's style height is
  \<open>listHeight\<close> followed by \<open>px\<close>.
\<close>

definition not_js :: "number option \<Rightarrow> js" where
  "not_js height =
     Boolean (case height of None \<Rightarrow> True | Some h \<Rightarrow> h = Num 0 \<or> h = NegZero \<or> h = NaN)"

definition layoutBody ::
  "number option \<Rightarrow> number \<Rightarrow> 'a ProviderPanel \<Rightarrow> 'a ProviderPanel"
where
  "layoutBody height_arg editorHeight p =
     (let height = (case height_arg of None \<Rightarrow> cachedHeight p | Some h \<Rightarrow> Some h)
      in if not_js height = Undefined then p
         else
           (let listHeight = js_minus (ToNumber height) (js_plus editorHeight (Num 12))
            in p\<lparr>cachedHeight := height,
                 listContainer_style_height := listHeight,
                 inputBoxContainer_scroll := js_ge editorHeight (Num 134)\<rparr>))"

text \<open>
  \<open>getSelectedResources\<close> filters what the list widget reports as selected
  (\<open>this.list.getSelectedElements()\<close>, the argument here).
\<close>

definition getSelectedResources :: "element list \<Rightarrow> element list" where
  "getSelectedResources selectedElements = filter (\<lambda>r. isSCMResource r) selectedElements"

text \<open>
  \<open>onDidAcceptInput\<close>. What it does outside the panel is a list of effects: a call of the
  command service, a report to \<open>onUnexpectedError\<close>, or a message shown by the message
  service (the surface that \<open>SCMMenuItemActionItem.onClick\<close> uses for its failures).
  \<open>executeCommand id args\<close> is how the promise of the command service settles:
  \<open>None\<close> when it is fulfilled, \<open>Some err\<close> when it is rejected with \<open>err\<close>.
\<close>

datatype ('a, 'e) effect =
  ExecuteCommand string "'a list" | OnUnexpectedError 'e | MessageShow 'e

fun isExecuteCommand :: "('a, 'e) effect \<Rightarrow> bool" where
  "isExecuteCommand (ExecuteCommand i a) = True"
| "isExecuteCommand (OnUnexpectedError e) = False"
| "isExecuteCommand (MessageShow e) = False"

fun isMessageShow :: "('a, 'e) effect \<Rightarrow> bool" where
  "isMessageShow (MessageShow e) = True"
| "isMessageShow (ExecuteCommand i a) = False"
| "isMessageShow (OnUnexpectedError e) = False"

definition onDidAcceptInput ::
  "(string \<Rightarrow> 'a list \<Rightarrow> 'e option) \<Rightarrow> 'a ProviderPanel \<Rightarrow> 'a ProviderPanel \<times> ('a, 'e) effect list"
where
  "onDidAcceptInput executeCommand p =
     (case acceptInputCommand (provider (repository p)) of
        None \<Rightarrow> (p, [])
      | Some c \<Rightarrow>
          (let id' = id_command c; args = arguments c
           in (p, ExecuteCommand id' args #
                  (case executeCommand id' args of
                     None \<Rightarrow> []
                   | Some err \<Rightarrow> [OnUnexpectedError err]))))"

section \<open>The flattened list as the specification words it\<close>

text \<open>
  A group is shown when it has a resource or its \<open>hideWhenEmpty\<close> flag is false; the
  flattened list is every shown group, in the provider's order, each followed by its
  resources in order.
\<close>

definition shown :: "ISCMResourceGroup \<Rightarrow> bool" where
  "shown g = (resources (resourceCollection g) \<noteq> [] \<or> \<not> hideWhenEmpty g)"

definition flattened :: "ISCMResourceGroup list \<Rightarrow> element list" where
  "flattened gs =
     concat (map (\<lambda>g. Group g # map Resource (resources (resourceCollection g))) (filter shown gs))"

section \<open>Example data\<close>

text \<open>
  A git provider with three groups: an empty \<open>index\<close> that hides when empty, a
  \<open>working-tree\<close> with two resources, and an empty \<open>merge\<close> that stays visible. The first
  panel's provider has a commit template and an accept-input command; the second panel's
  provider has neither. In both the repository's input holds \<open>wip\<close>. The resources
  \<open>c_ts\<close> and \<open>d_ts\<close> are two more resources of the working tree, for selections.
\<close>

definition working_tree_ref :: ISCMResourceGroupRef where
  "working_tree_ref = \<lparr>provider_group = \<lparr>contextValue = ''git''\<rparr>, id_group = ''working-tree''\<rparr>"

definition a_ts :: ISCMResource where
  "a_ts = \<lparr>resourceGroup = working_tree_ref, sourceUri = \<lparr>toString = ''file:///a.ts''\<rparr>\<rparr>"

definition b_ts :: ISCMResource where
  "b_ts = \<lparr>resourceGroup = working_tree_ref, sourceUri = \<lparr>toString = ''file:///b.ts''\<rparr>\<rparr>"

definition c_ts :: ISCMResource where
  "c_ts = \<lparr>resourceGroup = working_tree_ref, sourceUri = \<lparr>toString = ''file:///c.ts''\<rparr>\<rparr>"

definition d_ts :: ISCMResource where
  "d_ts = \<lparr>resourceGroup = working_tree_ref, sourceUri = \<lparr>toString = ''file:///d.ts''\<rparr>\<rparr>"

definition index_group :: ISCMResourceGroup where
  "index_group =
     \<lparr>provider_group = \<lparr>contextValue = ''git''\<rparr>, id_group = ''index'',
      hideWhenEmpty = True, resourceCollection = \<lparr>resources = []\<rparr>\<rparr>"

definition working_tree :: ISCMResourceGroup where
  "working_tree =
     \<lparr>provider_group = \<lparr>contextValue = ''git''\<rparr>, id_group = ''working-tree'',
      hideWhenEmpty = True, resourceCollection = \<lparr>resources = [a_ts, b_ts]\<rparr>\<rparr>"

definition merge_group :: ISCMResourceGroup where
  "merge_group =
     \<lparr>provider_group = \<lparr>contextValue = ''git''\<rparr>, id_group = ''merge'',
      hideWhenEmpty = False, resourceCollection = \<lparr>resources = []\<rparr>\<rparr>"

definition git_panel :: "nat ProviderPanel" where
  "git_panel =
     \<lparr>repository =
        \<lparr>provider =
           \<lparr>contextValue = ''git'',
            resources_provider = [index_group, working_tree, merge_group],
            commitTemplate = Some ''feat: '',
            acceptInputCommand = Some \<lparr>id_command = ''git.commit'', arguments = [1, 2]\<rparr>\<rparr>,
         input = \<lparr>value_input = ''wip''\<rparr>\<rparr>,
      cachedHeight = None,
      inputBox = \<lparr>value_inputBox = ''wip''\<rparr>,
      inputBoxContainer_scroll = False,
      listContainer_style_height = NaN,
      list = [Group index_group]\<rparr>"

definition bare_panel :: "nat ProviderPanel" where
  "bare_panel =
     \<lparr>repository =
        \<lparr>provider =
           \<lparr>contextValue = ''git'',
            resources_provider = [],
            commitTemplate = None,
            acceptInputCommand = None\<rparr>,
         input = \<lparr>value_input = ''wip''\<rparr>\<rparr>,
      cachedHeight = None,
      inputBox = \<lparr>value_inputBox = ''wip''\<rparr>,
      inputBoxContainer_scroll = False,
      listContainer_style_height = NaN,
      list = []\<rparr>"

text \<open>
  The resource \<open>file:///a.ts\<close> in the group \<open>index\<close> of the provider \<open>git\<close>, in the group
  \<open>merge/ours\<close> of the provider \<open>git\<close>, and in the group \<open>ours\<close> of the provider
  \<open>git/merge\<close>.
\<close>

definition a_ts_index :: ISCMResource where
  "a_ts_index =
     \<lparr>resourceGroup = \<lparr>provider_group = \<lparr>contextValue = ''git''\<rparr>, id_group = ''index''\<rparr>,
      sourceUri = \<lparr>toString = ''file:///a.ts''\<rparr>\<rparr>"

definition a_ts_git_ours :: ISCMResource where
  "a_ts_git_ours =
     \<lparr>resourceGroup = \<lparr>provider_group = \<lparr>contextValue = ''git''\<rparr>, id_group = ''merge/ours''\<rparr>,
      sourceUri = \<lparr>toString = ''file:///a.ts''\<rparr>\<rparr>"

definition a_ts_merge_ours :: ISCMResource where
  "a_ts_merge_ours =
     \<lparr>resourceGroup = \<lparr>provider_group = \<lparr>contextValue = ''git/merge''\<rparr>, id_group = ''ours''\<rparr>,
      sourceUri = \<lparr>toString = ''file:///a.ts''\<rparr>\<rparr>"

text \<open>A providers panel whose registry holds seven repositories, and one with two.\<close>

definition seven_panel :: "nat ProvidersPanel" where
  "seven_panel =
     \<lparr>scmService = \<lparr>repositories = [1, 2, 3, 4, 5, 6, 7]\<rparr>,
      list_repositories = [1, 2, 3, 4, 5, 6],
      minimumBodySize = 110, maximumBodySize = 110\<rparr>"

definition two_panel :: "nat ProvidersPanel" where
  "two_panel =
     \<lparr>scmService = \<lparr>repositories = [1, 3]\<rparr>,
      list_repositories = [1, 2, 3],
      minimumBodySize = 66, maximumBodySize = 66\<rparr>"

section \<open>The flattened list of \<open>updateList\<close>\<close>

lemma foldl_flattened:
  "foldl (\<lambda>r g. if length (resources (resourceCollection g)) = 0 \<and> hideWhenEmpty g then r
                 else r @ [Group g] @ map Resource (resources (resourceCollection g))) acc gs
   = acc @ flattened gs"
  by (induction gs arbitrary: acc) (simp_all add: flattened_def shown_def)

lemma splice_widget_all: "splice_widget 0 (length xs) elements xs = elements"
  by (simp add: splice_widget_def)

lemma list_updateList:
  "list (updateList p) = flattened (resources_provider (provider (repository p)))"
  unfolding updateList_def Let_def foldl_flattened by (simp add: splice_widget_all)

lemma Group_in_flattened: "Group g \<in> set (flattened gs) \<longleftrightarrow> g \<in> set gs \<and> shown g"
  by (auto simp: flattened_def)

text \<open>
  C1. Whatever groups the provider holds, the list after \<open>updateList\<close> is, in the provider's
  order, every group that has a resource or whose \<open>hideWhenEmpty\<close> flag is false, each
  followed at once by its resources in order. A group is in the list exactly when it is
  one of the provider's and is shown; an empty group of the provider's is in the list if
  and only if its \<open>hideWhenEmpty\<close> flag is false.
\<close>

theorem updateList_flattens:
  "list (updateList p) = flattened (resources_provider (provider (repository p)))
   \<and> (\<forall>g. Group g \<in> set (list (updateList p)) \<longleftrightarrow>
          g \<in> set (resources_provider (provider (repository p))) \<and> shown g)
   \<and> (\<forall>g \<in> set (resources_provider (provider (repository p))).
          resources (resourceCollection g) = [] \<longrightarrow>
            (Group g \<in> set (list (updateList p)) \<longleftrightarrow> \<not> hideWhenEmpty g))"
  by (simp add: list_updateList Group_in_flattened shown_def)

theorem updateList_flattens_witness:
  "list (updateList git_panel) =
     [Group working_tree, Resource a_ts, Resource b_ts, Group merge_group]
   \<and> Group index_group \<notin> set (list (updateList git_panel))
   \<and> Group merge_group \<in> set (list (updateList git_panel))"
  using updateList_flattens [of git_panel]
  by (simp add: git_panel_def flattened_def shown_def index_group_def working_tree_def
      merge_group_def)

section \<open>The identity key\<close>

lemma slash_split:
  "CHR ''/'' \<notin> set a \<Longrightarrow> CHR ''/'' \<notin> set b \<Longrightarrow> a @ CHR ''/'' # x = b @ CHR ''/'' # y
   \<Longrightarrow> a = b \<and> x = y"
  by (induction a arbitrary: b) (auto simp: Cons_eq_append_conv append_eq_Cons_conv)

lemma key3_inj:
  assumes "CHR ''/'' \<notin> set c1" "CHR ''/'' \<notin> set c2" "CHR ''/'' \<notin> set g1" "CHR ''/'' \<notin> set g2"
    and "c1 @ ''/'' @ g1 @ ''/'' @ u1 = c2 @ ''/'' @ g2 @ ''/'' @ u2"
  shows "c1 = c2 \<and> g1 = g2 \<and> u1 = u2"
proof -
  from assms(5)
  have e: "c1 @ CHR ''/'' # (g1 @ CHR ''/'' # u1) = c2 @ CHR ''/'' # (g2 @ CHR ''/'' # u2)"
    by simp
  from slash_split [OF assms(1) assms(2) e]
  have c: "c1 = c2" and r: "g1 @ CHR ''/'' # u1 = g2 @ CHR ''/'' # u2"
    by simp_all
  from slash_split [OF assms(3) assms(4) r] c show ?thesis by simp
qed

text \<open>
  C2, as amended. The key of a resource is its provider's context value, its group's id
  and its source location joined by \<open>/\<close>; the key of a group is its provider's context
  value and its id joined by \<open>/\<close>. Two resources that agree on the three components have
  the same key. Two resources with the same key agree on the three components when no
  context value and no group id of the two contains \<open>/\<close>.
\<close>

theorem identityProvider_key:
  "identityProvider (Resource r) =
      contextValue (provider_group (resourceGroup r)) @ ''/'' @ id_group (resourceGroup r)
        @ ''/'' @ toString (sourceUri r)
   \<and> identityProvider (Group g) = contextValue (provider_group g) @ ''/'' @ id_group g
   \<and> (contextValue (provider_group (resourceGroup r1))
          = contextValue (provider_group (resourceGroup r2))
        \<and> id_group (resourceGroup r1) = id_group (resourceGroup r2)
        \<and> toString (sourceUri r1) = toString (sourceUri r2)
       \<longrightarrow> identityProvider (Resource r1) = identityProvider (Resource r2))
   \<and> (CHR ''/'' \<notin> set (contextValue (provider_group (resourceGroup r1)))
        \<and> CHR ''/'' \<notin> set (id_group (resourceGroup r1))
        \<and> CHR ''/'' \<notin> set (contextValue (provider_group (resourceGroup r2)))
        \<and> CHR ''/'' \<notin> set (id_group (resourceGroup r2))
        \<and> identityProvider (Resource r1) = identityProvider (Resource r2)
       \<longrightarrow> contextValue (provider_group (resourceGroup r1))
            = contextValue (provider_group (resourceGroup r2))
         \<and> id_group (resourceGroup r1) = id_group (resourceGroup r2)
         \<and> toString (sourceUri r1) = toString (sourceUri r2))"
proof (intro conjI impI)
  assume a: "CHR ''/'' \<notin> set (contextValue (provider_group (resourceGroup r1)))
        \<and> CHR ''/'' \<notin> set (id_group (resourceGroup r1))
        \<and> CHR ''/'' \<notin> set (contextValue (provider_group (resourceGroup r2)))
        \<and> CHR ''/'' \<notin> set (id_group (resourceGroup r2))
        \<and> identityProvider (Resource r1) = identityProvider (Resource r2)"
  then have k:
    "contextValue (provider_group (resourceGroup r1)) @ ''/'' @ id_group (resourceGroup r1)
       @ ''/'' @ toString (sourceUri r1)
     = contextValue (provider_group (resourceGroup r2)) @ ''/'' @ id_group (resourceGroup r2)
       @ ''/'' @ toString (sourceUri r2)"
    by (simp add: Let_def)
  from a have s: "CHR ''/'' \<notin> set (contextValue (provider_group (resourceGroup r1)))"
      "CHR ''/'' \<notin> set (contextValue (provider_group (resourceGroup r2)))"
      "CHR ''/'' \<notin> set (id_group (resourceGroup r1))"
      "CHR ''/'' \<notin> set (id_group (resourceGroup r2))" by simp_all
  from key3_inj [OF s k]
  show "contextValue (provider_group (resourceGroup r1))
          = contextValue (provider_group (resourceGroup r2))"
    and "id_group (resourceGroup r1) = id_group (resourceGroup r2)"
    and "toString (sourceUri r1) = toString (sourceUri r2)" by simp_all
qed (simp_all add: Let_def)

theorem identityProvider_key_witness:
  "CHR ''/'' \<notin> set (contextValue (provider_group (resourceGroup a_ts)))
   \<and> CHR ''/'' \<notin> set (id_group (resourceGroup a_ts))
   \<and> CHR ''/'' \<notin> set (contextValue (provider_group (resourceGroup a_ts_index)))
   \<and> CHR ''/'' \<notin> set (id_group (resourceGroup a_ts_index))
   \<and> identityProvider (Resource a_ts) = ''git/working-tree/file:///a.ts''
   \<and> identityProvider (Group working_tree) = ''git/working-tree''
   \<and> identityProvider (Resource a_ts) \<noteq> identityProvider (Resource a_ts_index)"
  using identityProvider_key [of a_ts working_tree a_ts a_ts_index]
  by (simp add: a_ts_def a_ts_index_def working_tree_ref_def working_tree_def)

text \<open>
  The key is not injective: the group \<open>merge/ours\<close> of the provider \<open>git\<close> and the group
  \<open>ours\<close> of the provider \<open>git/merge\<close> give one key to \<open>file:///a.ts\<close>.
\<close>

theorem identityProvider_not_injective:
  "identityProvider (Resource a_ts_git_ours) = identityProvider (Resource a_ts_merge_ours)
   \<and> contextValue (provider_group (resourceGroup a_ts_git_ours))
       \<noteq> contextValue (provider_group (resourceGroup a_ts_merge_ours))
   \<and> id_group (resourceGroup a_ts_git_ours) \<noteq> id_group (resourceGroup a_ts_merge_ours)"
  by (simp add: a_ts_git_ours_def a_ts_merge_ours_def)

section \<open>The multi-selection action runner\<close>

lemma filter_neq_removeAll: "filter (\<lambda>s. s \<noteq> c) xs = removeAll c xs"
  by (induction xs) auto

lemma length_removeAll_eq: "length xs = length (removeAll c xs) \<longleftrightarrow> c \<notin> set xs"
proof
  assume "length xs = length (removeAll c xs)"
  then show "c \<notin> set xs"
    using length_removeAll_less [of c xs] by auto
next
  assume "c \<notin> set xs"
  then show "length xs = length (removeAll c xs)" by simp
qed

text \<open>
  C3. For a menu-item action, when the current selection contains the context resource
  and has at least two entries, the runner makes exactly one call: the action is run with
  the context resource first, then the selection without the context resource, in the
  selection's order.
\<close>

theorem runAction_fans_out:
  assumes "context \<in> set (getSelected w)" and "2 \<le> length (getSelected w)"
  shows "runAction getSelected w (MenuItemAction a) context =
           [ActionRun (MenuItemAction a) (context # removeAll context (getSelected w))]"
  using assms by (simp add: runAction_def Let_def filter_neq_removeAll length_removeAll_eq)

theorem runAction_fans_out_witness:
  "b_ts \<in> set [a_ts, b_ts, c_ts] \<and> 2 \<le> length [a_ts, b_ts, c_ts]
   \<and> runAction (\<lambda>w. w) [a_ts, b_ts, c_ts] (MenuItemAction ''git.stage'') b_ts =
       [ActionRun (MenuItemAction ''git.stage'') [b_ts, a_ts, c_ts]]"
  using runAction_fans_out [of b_ts "\<lambda>w. w" "[a_ts, b_ts, c_ts]" "''git.stage''"]
  by (simp add: a_ts_def b_ts_def c_ts_def)

text \<open>
  C4. For a menu-item action, when the current selection is empty, has one entry, or does
  not contain the context resource, the runner makes exactly one call: the action is run
  with the context resource alone.
\<close>

theorem runAction_no_fan_out:
  assumes "getSelected w = [] \<or> length (getSelected w) = 1 \<or> context \<notin> set (getSelected w)"
  shows "runAction getSelected w (MenuItemAction a) context =
           [ActionRun (MenuItemAction a) [context]]"
  using assms by (auto simp: runAction_def Let_def filter_neq_removeAll length_removeAll_eq)

theorem runAction_no_fan_out_witness:
  "d_ts \<notin> set [a_ts, b_ts, c_ts]
   \<and> runAction (\<lambda>w. w) [a_ts, b_ts, c_ts] (MenuItemAction ''git.stage'') d_ts =
       [ActionRun (MenuItemAction ''git.stage'') [d_ts]]
   \<and> runAction (\<lambda>w. w) [] (MenuItemAction ''git.stage'') d_ts =
       [ActionRun (MenuItemAction ''git.stage'') [d_ts]]
   \<and> length [d_ts] = 1
   \<and> runAction (\<lambda>w. w) [d_ts] (MenuItemAction ''git.stage'') d_ts =
       [ActionRun (MenuItemAction ''git.stage'') [d_ts]]"
  using runAction_no_fan_out [of "\<lambda>w. w" "[a_ts, b_ts, c_ts]" d_ts "''git.stage''"]
    runAction_no_fan_out [of "\<lambda>w. w" "[]" d_ts "''git.stage''"]
    runAction_no_fan_out [of "\<lambda>w. w" "[d_ts]" d_ts "''git.stage''"]
  by (simp add: a_ts_def b_ts_def c_ts_def d_ts_def)

text \<open>
  C10. Whatever the list widget reports as selected, \<open>getSelectedResources\<close> returns
  resources only: no resource group is in its result. So when the runner reads the
  selection through it, every argument after the first of a call it makes is a resource.
\<close>

theorem getSelectedResources_only_resources:
  "(\<forall>e \<in> set (getSelectedResources selectedElements). isSCMResource e)
   \<and> (\<forall>g. Group g \<notin> set (getSelectedResources selectedElements))
   \<and> (\<forall>a args.
        ActionRun a args \<in> set (runAction getSelectedResources selectedElements action context)
        \<longrightarrow> (\<forall>x \<in> set (tl args). isSCMResource x))"
  by (auto simp: getSelectedResources_def runAction_def Let_def)

theorem getSelectedResources_only_resources_witness:
  "getSelectedResources [Group working_tree, Resource a_ts, Resource b_ts]
     = [Resource a_ts, Resource b_ts]
   \<and> runAction getSelectedResources [Group working_tree, Resource a_ts, Resource b_ts]
       (MenuItemAction ''git.stage'') (Resource a_ts)
     = [ActionRun (MenuItemAction ''git.stage'') [Resource a_ts, Resource b_ts]]
   \<and> isSCMResource (Resource b_ts)"
  using getSelectedResources_only_resources
    [of "[Group working_tree, Resource a_ts, Resource b_ts]" "MenuItemAction ''git.stage''"
      "Resource a_ts"]
  by (simp add: getSelectedResources_def runAction_def a_ts_def b_ts_def)

section \<open>The commit input\<close>

text \<open>
  C5, as amended. When the provider's commit-template event fires and the provider's
  current commit template is defined, the input box's value becomes that template,
  whatever the input box held before (\<open>edits\<close>, the user's unsaved text). When the
  template is undefined, the listener leaves the panel as it is.
\<close>

theorem onDidChangeCommitTemplate_overwrites:
  "(commitTemplate (provider (repository p)) = Some t \<longrightarrow>
      value_inputBox (inputBox (onDidChangeCommitTemplate p)) = t
      \<and> value_inputBox (inputBox
           (onDidChangeCommitTemplate (p\<lparr>inputBox := \<lparr>value_inputBox = edits\<rparr>\<rparr>))) = t)
   \<and> (commitTemplate (provider (repository p)) = None \<longrightarrow> onDidChangeCommitTemplate p = p)"
  by (simp add: onDidChangeCommitTemplate_def updateInputBox_def)

theorem onDidChangeCommitTemplate_overwrites_witness:
  "commitTemplate (provider (repository git_panel)) = Some ''feat: ''
   \<and> value_inputBox (inputBox git_panel) = ''wip''
   \<and> value_inputBox (inputBox (onDidChangeCommitTemplate git_panel)) = ''feat: ''
   \<and> value_inputBox (inputBox
        (onDidChangeCommitTemplate (git_panel\<lparr>inputBox := \<lparr>value_inputBox = ''fix: y''\<rparr>\<rparr>)))
      = ''feat: ''
   \<and> commitTemplate (provider (repository bare_panel)) = None
   \<and> onDidChangeCommitTemplate bare_panel = bare_panel"
  using onDidChangeCommitTemplate_overwrites [of git_panel "''feat: ''" "''fix: y''"]
    onDidChangeCommitTemplate_overwrites [of bare_panel "''feat: ''" "''fix: y''"]
  by (simp add: git_panel_def bare_panel_def)

text \<open>
  With no commit template the event does not overwrite the input: the input box keeps
  \<open>wip\<close>, which is not the provider's (undefined) template.
\<close>

theorem onDidChangeCommitTemplate_keeps_without_template:
  "commitTemplate (provider (repository bare_panel)) = None
   \<and> value_inputBox (inputBox (onDidChangeCommitTemplate bare_panel)) = ''wip''
   \<and> Some (value_inputBox (inputBox (onDidChangeCommitTemplate bare_panel)))
       \<noteq> commitTemplate (provider (repository bare_panel))"
  by (simp add: onDidChangeCommitTemplate_def updateInputBox_def bare_panel_def)

text \<open>
  C6, as amended. Right after \<open>renderBody\<close>, the input box's value is the provider's
  current commit template when the provider defines one, and the current value of the
  repository's input otherwise.
\<close>

theorem renderBody_input_value:
  "value_inputBox (inputBox (renderBody p)) =
     (case commitTemplate (provider (repository p)) of
        Some t \<Rightarrow> t
      | None \<Rightarrow> value_input (input (repository p)))"
  by (simp add: renderBody_def updateInputBox_def updateList_def Let_def split: option.split)

theorem renderBody_input_value_witness:
  "value_inputBox (inputBox (renderBody git_panel)) = ''feat: ''
   \<and> value_inputBox (inputBox (renderBody bare_panel)) = ''wip''"
  using renderBody_input_value [of git_panel] renderBody_input_value [of bare_panel]
  by (simp add: git_panel_def bare_panel_def)

text \<open>
  With no commit template and \<open>wip\<close> in the repository's input, the input box holds
  \<open>wip\<close> after \<open>renderBody\<close>, not the empty string.
\<close>

theorem renderBody_input_not_empty:
  "commitTemplate (provider (repository bare_panel)) = None
   \<and> value_inputBox (inputBox (renderBody bare_panel)) = ''wip''
   \<and> value_inputBox (inputBox (renderBody bare_panel)) \<noteq> []"
  by (simp add: renderBody_def updateInputBox_def updateList_def Let_def bare_panel_def)

text \<open>
  C7. \<open>onDidAcceptInput\<close> calls the command service if and only if the provider declares
  an accept-input command; it then calls it once, with the declared id and the declared
  arguments, and a rejection goes to \<open>onUnexpectedError\<close>. With no accept-input command
  declared it does nothing. It never changes the panel and never shows a message.
\<close>

theorem onDidAcceptInput_command:
  "((\<exists>e \<in> set (snd (onDidAcceptInput executeCommand p)). isExecuteCommand e)
      \<longleftrightarrow> acceptInputCommand (provider (repository p)) \<noteq> None)
   \<and> (\<forall>c. acceptInputCommand (provider (repository p)) = Some c \<longrightarrow>
         filter isExecuteCommand (snd (onDidAcceptInput executeCommand p))
           = [ExecuteCommand (id_command c) (arguments c)]
         \<and> (\<forall>err. executeCommand (id_command c) (arguments c) = Some err \<longrightarrow>
               snd (onDidAcceptInput executeCommand p)
                 = [ExecuteCommand (id_command c) (arguments c), OnUnexpectedError err])
         \<and> (executeCommand (id_command c) (arguments c) = None \<longrightarrow>
               snd (onDidAcceptInput executeCommand p)
                 = [ExecuteCommand (id_command c) (arguments c)]))
   \<and> (acceptInputCommand (provider (repository p)) = None \<longrightarrow>
         onDidAcceptInput executeCommand p = (p, []))
   \<and> fst (onDidAcceptInput executeCommand p) = p
   \<and> (\<forall>e \<in> set (snd (onDidAcceptInput executeCommand p)). \<not> isMessageShow e)"
  by (auto simp: onDidAcceptInput_def Let_def split: option.splits)

theorem onDidAcceptInput_command_witness:
  "acceptInputCommand (provider (repository git_panel))
     = Some \<lparr>id_command = ''git.commit'', arguments = [1, 2]\<rparr>
   \<and> onDidAcceptInput (\<lambda>i a. Some ''rejected'') git_panel
     = (git_panel, [ExecuteCommand ''git.commit'' [1, 2], OnUnexpectedError ''rejected''])
   \<and> onDidAcceptInput (\<lambda>i a. None :: string option) git_panel
     = (git_panel, [ExecuteCommand ''git.commit'' [1, 2]])
   \<and> acceptInputCommand (provider (repository bare_panel)) = None
   \<and> onDidAcceptInput (\<lambda>i a. Some ''rejected'') bare_panel = (bare_panel, [])"
  using onDidAcceptInput_command [of "\<lambda>i a. Some ''rejected''" git_panel]
    onDidAcceptInput_command [of "\<lambda>i a. None :: string option" git_panel]
    onDidAcceptInput_command [of "\<lambda>i a. Some ''rejected''" bare_panel]
  by (simp add: onDidAcceptInput_def Let_def git_panel_def bare_panel_def)

section \<open>Sizes\<close>

text \<open>
  C8. When a repository is added or removed, the providers panel's list becomes the
  registry's current repositories, by one splice over the whole list, and the panel's
  minimum and maximum body size both become \<open>min 5 count * 22\<close>, where \<open>count\<close> is the
  number of repositories and \<open>22\<close> is the row height that the list delegate reports.
\<close>

theorem update_replaces_and_sizes:
  "list_repositories (onDidAddRepository r p)
     = splice_widget 0 (length (list_repositories p)) (repositories (scmService p))
         (list_repositories p)
   \<and> list_repositories (onDidAddRepository r p) = repositories (scmService p)
   \<and> minimumBodySize (onDidAddRepository r p)
       = min 5 (length (repositories (scmService p))) * getHeight r
   \<and> maximumBodySize (onDidAddRepository r p)
       = min 5 (length (repositories (scmService p))) * getHeight r
   \<and> list_repositories (onDidRemoveRepository r p) = repositories (scmService p)
   \<and> minimumBodySize (onDidRemoveRepository r p)
       = min 5 (length (repositories (scmService p))) * getHeight r
   \<and> maximumBodySize (onDidRemoveRepository r p)
       = min 5 (length (repositories (scmService p))) * getHeight r
   \<and> getHeight r = 22"
  by (simp add: onDidAddRepository_def onDidRemoveRepository_def update_def updateBodySize_def
      Let_def splice_widget_def getHeight_def)

theorem update_replaces_and_sizes_witness:
  "list_repositories (onDidAddRepository 7 seven_panel) = [1, 2, 3, 4, 5, 6, 7]
   \<and> minimumBodySize (onDidAddRepository 7 seven_panel) = 110
   \<and> maximumBodySize (onDidAddRepository 7 seven_panel) = 110
   \<and> list_repositories (onDidRemoveRepository 2 two_panel) = [1, 3]
   \<and> minimumBodySize (onDidRemoveRepository 2 two_panel) = 44
   \<and> maximumBodySize (onDidRemoveRepository 2 two_panel) = 44"
  using update_replaces_and_sizes [of 7 seven_panel] update_replaces_and_sizes [of 2 two_panel]
  by (simp add: seven_panel_def two_panel_def getHeight_def splice_widget_def)


section \<open>The list height of \<open>layoutBody\<close>\<close>

text \<open>
  A value whose magnitude is \<open>m * 2 ^ j\<close> units of \<open>2 ^ -1074\<close> with \<open>m < 2 ^ 53\<close>, below the
  overflow threshold, is a binary64 value: rounding leaves it as it is. So sums and
  differences of integers are exact as long as the result is at most \<open>2 ^ 53\<close> in magnitude.
\<close>

lemma ilog2_double: "0 < n \<Longrightarrow> ilog2 (2 * n) = Suc (ilog2 n)"
  by (subst ilog2.simps) simp

lemma ilog2_mult_pow: "0 < n \<Longrightarrow> ilog2 (n * 2 ^ j) = ilog2 n + j"
proof (induction j)
  case 0
  then show ?case by simp
next
  case (Suc j)
  have "0 < n * 2 ^ j" using Suc.prems by simp
  then have "ilog2 (2 * (n * 2 ^ j)) = Suc (ilog2 (n * 2 ^ j))" by (rule ilog2_double)
  with Suc show ?case by (simp add: mult.commute mult.left_commute)
qed

lemma ilog2_le: "n < 2 ^ Suc b \<Longrightarrow> ilog2 n \<le> b"
proof (induction b arbitrary: n)
  case 0
  then show ?case by (subst ilog2.simps) simp
next
  case (Suc b)
  show ?case
  proof (cases "n < 2")
    case True
    then show ?thesis by (subst ilog2.simps) simp
  next
    case False
    from Suc.prems have "n div 2 < 2 ^ Suc b" by simp
    then have "ilog2 (n div 2) \<le> b" by (rule Suc.IH)
    with False show ?thesis by (subst ilog2.simps) simp
  qed
qed

lemma roundTiesToEven_of_int: "roundTiesToEven (of_int z) = z"
  by (simp add: roundTiesToEven_def)

lemma round64_exact:
  assumes m: "0 < m" "m < 2 ^ 53"
    and bound: "m * 2 ^ j < 2 ^ (subnormal_exponent + 1024)"
    and x: "\<bar>x\<bar> = of_int (m * 2 ^ j) / 2 ^ subnormal_exponent"
  shows "round64 x = Num x"
proof -
  define N where "N = \<bar>x\<bar> * 2 ^ subnormal_exponent"
  define k where "k = ilog2 \<lfloor>N\<rfloor> - 52"
  define M where "M = roundTiesToEven (N / 2 ^ k) * 2 ^ k"
  have N: "N = of_int (m * 2 ^ j)" unfolding N_def x by simp
  have fl: "\<lfloor>N\<rfloor> = m * 2 ^ j" unfolding N by (rule floor_of_int)
  have "ilog2 m \<le> 52" using m(2) ilog2_le [of m 52] by simp
  then have kj: "k \<le> j" unfolding k_def fl using ilog2_mult_pow [OF m(1), of j] by simp
  then have pj: "(2::int) ^ j = 2 ^ (j - k) * 2 ^ k" by (simp flip: power_add)
  have "N / 2 ^ k = of_int (m * 2 ^ (j - k))" unfolding N pj by simp
  then have "roundTiesToEven (N / 2 ^ k) = m * 2 ^ (j - k)"
    by (simp only: roundTiesToEven_of_int)
  then have M: "M = m * 2 ^ j" unfolding M_def using pj by simp
  have nz: "M \<noteq> 0" unfolding M using m(1) by simp
  have small: "\<not> 2 ^ (subnormal_exponent + 1024) \<le> M" unfolding M using bound by simp
  have "sgn x * of_int M / 2 ^ subnormal_exponent = sgn x * \<bar>x\<bar>" unfolding M x by simp
  also have "\<dots> = x" by (simp add: sgn_mult_abs)
  finally have res: "sgn x * of_int M / 2 ^ subnormal_exponent = x" .
  have "round64 x = Num (sgn x * of_int M / 2 ^ subnormal_exponent)"
    unfolding round64_def Let_def N_def [symmetric] k_def [symmetric] M_def [symmetric]
    using nz small by simp
  with res show ?thesis by simp
qed

lemma round64_int:
  assumes "n \<noteq> 0" and "\<bar>n\<bar> \<le> 2 ^ 53"
  shows "round64 (of_int n) = Num (of_int n)"
proof (cases "\<bar>n\<bar> < 2 ^ 53")
  case True
  have "(2::int) ^ 53 \<le> 2 ^ 1024" by (rule power_increasing) simp_all
  with True have "\<bar>n\<bar> < 2 ^ 1024" by simp
  then have "\<bar>n\<bar> * 2 ^ subnormal_exponent < 2 ^ 1024 * 2 ^ subnormal_exponent" by simp
  then have b: "\<bar>n\<bar> * 2 ^ subnormal_exponent < 2 ^ (subnormal_exponent + 1024)"
    by (simp add: power_add mult.commute)
  have x: "\<bar>of_int n :: rat\<bar>
      = of_int (\<bar>n\<bar> * 2 ^ subnormal_exponent) / 2 ^ subnormal_exponent"
    by simp
  from assms(1) have "0 < \<bar>n\<bar>" by simp
  from round64_exact [OF this True b x] show ?thesis .
next
  case False
  with assms(2) have n: "\<bar>n\<bar> = 2 ^ 53" by simp
  have b: "(1::int) * 2 ^ (53 + subnormal_exponent) < 2 ^ (subnormal_exponent + 1024)"
    by simp
  have x: "\<bar>of_int n :: rat\<bar>
      = of_int (1 * 2 ^ (53 + subnormal_exponent)) / 2 ^ subnormal_exponent"
  proof -
    have "\<bar>of_int n :: rat\<bar> = of_int \<bar>n\<bar>" by simp
    also have "\<dots> = 2 ^ 53" unfolding n by simp
    finally show ?thesis by (simp add: power_add)
  qed
  have "(0::int) < 1" "(1::int) < 2 ^ 53" by simp_all
  from round64_exact [OF this b x] show ?thesis .
qed

lemma js_plus_int:
  assumes "\<bar>i + j\<bar> \<le> 2 ^ 53"
  shows "js_plus (Num (of_int i)) (Num (of_int j)) = Num (of_int (i + j))"
proof (cases "i + j = 0")
  case True
  then have "(of_int i :: rat) + of_int j = 0" by (simp flip: of_int_add)
  with True show ?thesis by (simp add: js_plus_def)
next
  case False
  then have "(of_int i :: rat) + of_int j \<noteq> 0" by (simp flip: of_int_add)
  then show ?thesis using round64_int [OF False assms] by (simp add: js_plus_def)
qed

lemma js_minus_int:
  assumes "\<bar>i - j\<bar> \<le> 2 ^ 53"
  shows "js_minus (Num (of_int i)) (Num (of_int j)) = Num (of_int (i - j))"
proof (cases "j = 0")
  case True
  show ?thesis
  proof (cases "i = 0")
    case True
    with \<open>j = 0\<close> show ?thesis by (simp add: js_minus_def js_plus_def)
  next
    case False
    with \<open>j = 0\<close> assms have "round64 (of_int i) = Num (of_int i)" by (simp add: round64_int)
    with False \<open>j = 0\<close> show ?thesis by (simp add: js_minus_def js_plus_def)
  qed
next
  case False
  have "\<bar>i + (- j)\<bar> \<le> 2 ^ 53" using assms by simp
  from js_plus_int [OF this] False show ?thesis by (simp add: js_minus_def)
qed

lemma list_height_layoutBody:
  "listContainer_style_height (layoutBody (Some h) e p) = js_minus h (js_plus e (Num 12))"
  by (simp add: layoutBody_def not_js_def Let_def)

text \<open>
  Beyond \<open>2 ^ 53\<close> the subtraction rounds: for the height \<open>2 ^ 54\<close> and the input height 1
  the exact difference 18014398509481971 lies halfway between two binary64 values, and
  the list height is the even one. A height need not be an integer: for 237.5 and 0.5 the
  list height is 225.
\<close>

lemma ilog2_big: "ilog2 18014398509481971 = 53"
  by code_simp

lemma round64_big: "round64 18014398509481971 = Num 18014398509481972"
proof -
  define N :: rat where "N = \<bar>18014398509481971\<bar> * 2 ^ subnormal_exponent"
  define k where "k = ilog2 \<lfloor>N\<rfloor> - 52"
  define M where "M = roundTiesToEven (N / 2 ^ k) * 2 ^ k"
  have N: "N = of_int (18014398509481971 * 2 ^ subnormal_exponent)" unfolding N_def by simp
  have fl: "\<lfloor>N\<rfloor> = 18014398509481971 * 2 ^ subnormal_exponent"
    unfolding N by (rule floor_of_int)
  have k: "k = Suc subnormal_exponent"
    unfolding k_def fl using ilog2_mult_pow [of 18014398509481971 subnormal_exponent]
    by (simp add: ilog2_big)
  have q: "N / 2 ^ k = 18014398509481971 / 2" unfolding N_def k by simp
  have f: "\<lfloor>18014398509481971 / 2 :: rat\<rfloor> = 9007199254740985"
    by (rule floor_unique) simp_all
  have "roundTiesToEven (18014398509481971 / 2) = 9007199254740986"
    by (simp add: roundTiesToEven_def Let_def f)
  then have "roundTiesToEven (N / 2 ^ k) = 9007199254740986"
    by (simp only: q)
  then have M: "M = 18014398509481972 * 2 ^ subnormal_exponent" unfolding M_def k by simp
  have "(18014398509481972::int) < 2 ^ 1024"
  proof -
    have "(18014398509481972::int) < 2 ^ 55" by simp
    also have "(2::int) ^ 55 \<le> 2 ^ 1024" by (rule power_increasing) simp_all
    finally show ?thesis .
  qed
  then have "18014398509481972 * 2 ^ subnormal_exponent
      < (2::int) ^ 1024 * 2 ^ subnormal_exponent" by simp
  then have small: "\<not> 2 ^ (subnormal_exponent + 1024) \<le> M"
    unfolding M by (simp add: power_add mult.commute)
  have nz: "M \<noteq> 0" unfolding M by simp
  have "round64 18014398509481971
      = Num (sgn 18014398509481971 * of_int M / 2 ^ subnormal_exponent)"
    unfolding round64_def Let_def N_def [symmetric] k_def [symmetric] M_def [symmetric]
    using nz small by simp
  then show ?thesis unfolding M by simp
qed

lemma layoutBody_rounds:
  "listContainer_style_height (layoutBody (Some (Num (2 ^ 54))) (Num 1) p)
     = Num 18014398509481972"
proof -
  have "js_plus (Num 1) (Num 12) = Num 13" using js_plus_int [of 1 12] by simp
  then show ?thesis
    unfolding list_height_layoutBody by (simp add: js_minus_def js_plus_def round64_big)
qed

lemma layoutBody_fraction:
  "listContainer_style_height (layoutBody (Some (Num (475 / 2))) (Num (1 / 2)) p) = Num 225"
proof -
  have se: "(2::rat) ^ subnormal_exponent = 2 * 2 ^ 1073"
    unfolding subnormal_exponent_def by (simp flip: power_Suc)
  have b: "(25::int) * 2 ^ 1073 < 2 ^ (subnormal_exponent + 1024)"
  proof -
    have "(25::int) * 2 ^ 1073 < 2 ^ 5 * 2 ^ 1073" by simp
    also have "\<dots> = 2 ^ 1078" by (simp flip: power_add)
    also have "\<dots> \<le> 2 ^ (subnormal_exponent + 1024)"
      by (rule power_increasing) (simp_all add: subnormal_exponent_def)
    finally show ?thesis .
  qed
  have x: "\<bar>25 / 2 :: rat\<bar> = of_int (25 * 2 ^ 1073) / 2 ^ subnormal_exponent"
    unfolding se by simp
  have "(0::int) < 25" "(25::int) < 2 ^ 53" by simp_all
  from round64_exact [OF this b x] have r: "round64 (25 / 2) = Num (25 / 2)" .
  have p: "js_plus (Num (1 / 2)) (Num 12) = Num (25 / 2)"
    using r by (simp add: js_plus_def)
  have "round64 225 = Num 225" using round64_int [of 225] by simp
  then show ?thesis
    unfolding list_height_layoutBody p by (simp add: js_minus_def js_plus_def)
qed

text \<open>
  C9. For every total height \<open>h\<close> and every input height \<open>e\<close>, \<open>layoutBody\<close> sets the list
  container's height to \<open>h - (e + 12)\<close>, computed as JavaScript computes it on numbers.
  When \<open>h\<close> and \<open>e\<close> are integers and \<open>h\<close>, \<open>e\<close>, \<open>e + 12\<close> and \<open>h - (e + 12)\<close> are at
  most \<open>2 ^ 53\<close> in magnitude, that is the integer \<open>h - (e + 12)\<close> exactly; for 300 and 50
  it is 238.
\<close>

theorem layoutBody_list_height:
  "listContainer_style_height (layoutBody (Some h) e p) = js_minus h (js_plus e (Num 12))
   \<and> (\<bar>i\<bar> \<le> 2 ^ 53 \<and> \<bar>j\<bar> \<le> 2 ^ 53 \<and> \<bar>j + 12\<bar> \<le> 2 ^ 53 \<and> \<bar>i - (j + 12)\<bar> \<le> 2 ^ 53
        \<longrightarrow> listContainer_style_height (layoutBody (Some (Num (of_int i))) (Num (of_int j)) p)
              = Num (of_int (i - (j + 12))))
   \<and> listContainer_style_height (layoutBody (Some (Num 300)) (Num 50) p) = Num 238"
proof (intro conjI impI)
  show "listContainer_style_height (layoutBody (Some h) e p) = js_minus h (js_plus e (Num 12))"
    by (rule list_height_layoutBody)
next
  assume a: "\<bar>i\<bar> \<le> 2 ^ 53 \<and> \<bar>j\<bar> \<le> 2 ^ 53 \<and> \<bar>j + 12\<bar> \<le> 2 ^ 53 \<and> \<bar>i - (j + 12)\<bar> \<le> 2 ^ 53"
  then have "js_plus (Num (of_int j)) (Num (of_int 12)) = Num (of_int (j + 12))"
    by (intro js_plus_int) simp
  then have s: "js_plus (Num (of_int j)) (Num 12) = Num (of_int (j + 12))" by simp
  from a have "js_minus (Num (of_int i)) (Num (of_int (j + 12))) = Num (of_int (i - (j + 12)))"
    by (intro js_minus_int) simp
  then show "listContainer_style_height (layoutBody (Some (Num (of_int i))) (Num (of_int j)) p)
      = Num (of_int (i - (j + 12)))"
    unfolding list_height_layoutBody s .
next
  have "js_plus (Num 50) (Num 12) = Num 62" using js_plus_int [of 50 12] by simp
  moreover have "js_minus (Num 300) (Num 62) = Num 238" using js_minus_int [of 300 62] by simp
  ultimately show "listContainer_style_height (layoutBody (Some (Num 300)) (Num 50) p) = Num 238"
    unfolding list_height_layoutBody by simp
qed

theorem layoutBody_list_height_witness:
  "\<bar>300 :: int\<bar> \<le> 2 ^ 53 \<and> \<bar>50 :: int\<bar> \<le> 2 ^ 53 \<and> \<bar>50 + 12 :: int\<bar> \<le> 2 ^ 53
   \<and> \<bar>300 - (50 + 12) :: int\<bar> \<le> 2 ^ 53
   \<and> listContainer_style_height (layoutBody (Some (Num 300)) (Num 50) git_panel) = Num 238
   \<and> cachedHeight (layoutBody (Some (Num 300)) (Num 50) git_panel) = Some (Num 300)"
  using layoutBody_list_height [of "Num 300" "Num 50" git_panel 300 50]
  by (simp add: layoutBody_def not_js_def Let_def)

end
